theory Spec2Isabelle
  imports Main "HOL-Library.Sublist"
begin

section \<open>Strings of script.js\<close>

text \<open>
  A JavaScript string is a sequence of UTF-16 code units. The model keeps the code units
  below 256 (ASCII and the Latin-1 supplement), one \<^typ>\<open>char\<close> per code unit; every
  string literal of the script lies in that range. The built-ins the script calls are
  written out for that range.
\<close>

definition code_unit :: "char \<Rightarrow> nat" where
  "code_unit c = of_char c"

text \<open>
  \<^verbatim>\<open>String.prototype.toLowerCase\<close>: the upper-case letters below 256 are A to Z and
  U+00C0 to U+00DE without the multiplication sign U+00D7; each maps to the code unit 32
  above it, every other code unit maps to itself. Beyond this range the built-in is not a
  map over code units: it turns U+0130 into two code units.
\<close>

definition lower_unit :: "char \<Rightarrow> char" where
  "lower_unit c =
     (let n = code_unit c in
      if (65 \<le> n \<and> n \<le> 90) \<or> (192 \<le> n \<and> n \<le> 222 \<and> n \<noteq> 215)
      then char_of (n + 32) else c)"

definition toLowerCase :: "string \<Rightarrow> string" where
  "toLowerCase s = map lower_unit s"

text \<open>
  White space and line terminators of ECMAScript below 256: TAB, LF, VT, FF, CR, SPACE
  and NO-BREAK SPACE. It is the set \<^verbatim>\<open>trim\<close> strips and the regular expression class
  \<^verbatim>\<open>\s\<close> matches.
\<close>

definition is_space :: "char \<Rightarrow> bool" where
  "is_space c = (code_unit c \<in> {9, 10, 11, 12, 13, 32, 160})"

definition trim :: "string \<Rightarrow> string" where
  "trim s = rev (dropWhile is_space (rev (dropWhile is_space s)))"

text \<open>\<^verbatim>\<open>String.prototype.includes\<close>: the argument occurs as a contiguous substring.\<close>

fun includes_str :: "string \<Rightarrow> string \<Rightarrow> bool" where
  "includes_str [] t = (t = [])"
| "includes_str (c # cs) t = (prefix t (c # cs) \<or> includes_str cs t)"

section \<open>Catalog\<close>

text \<open>
  A record of \<^verbatim>\<open>products.json\<close>, and the record \<^verbatim>\<open>loadProducts\<close> makes of it by
  spreading it and adding \<^verbatim>\<open>id\<close>.
\<close>

record raw_product =
  name :: string
  brand :: string
  category :: string
  description :: string
  image :: string

record product = raw_product +
  id_p :: string

text \<open>The class \<^verbatim>\<open>[^a-z0-9]\<close> of line 42, negated.\<close>

definition is_az09 :: "char \<Rightarrow> bool" where
  "is_az09 c = (let n = code_unit c in (97 \<le> n \<and> n \<le> 122) \<or> (48 \<le> n \<and> n \<le> 57))"

text \<open>
  \<^verbatim>\<open>s.replace(/[^a-z0-9]/g, '-')\<close>: the pattern matches one code unit, so the global
  replacement rewrites the string unit by unit.
\<close>

definition replace_non_az09 :: "string \<Rightarrow> string" where
  "replace_non_az09 s = map (\<lambda>c. if is_az09 c then c else CHR ''-'') s"

definition derive_id :: "string \<Rightarrow> string" where
  "derive_id n = replace_non_az09 (toLowerCase n)"

definition with_id :: "raw_product \<Rightarrow> product" where
  "with_id r = raw_product.extend r (product.fields (derive_id (name r)))"

text \<open>
  The identifier as the specification words it: the lower-case name in which every maximal
  run of non-alphanumeric characters becomes one hyphen.
\<close>

fun collapse_runs :: "bool \<Rightarrow> string \<Rightarrow> string" where
  "collapse_runs in_run [] = []"
| "collapse_runs in_run (c # cs) =
     (if is_az09 c then c # collapse_runs False cs
      else if in_run then collapse_runs True cs
      else CHR ''-'' # collapse_runs True cs)"

definition spec_collapsed_id :: "string \<Rightarrow> string" where
  "spec_collapsed_id n = collapse_runs False (toLowerCase n)"

text \<open>
  \<^verbatim>\<open>loadProducts\<close>, lines 36 to 50: the new value of \<^verbatim>\<open>productsData\<close> from the outcome of
  fetching and parsing the catalog (\<open>None\<close> when either throws, which leaves the variable
  as it was) and its old value.
\<close>

definition loadProducts :: "raw_product list option \<Rightarrow> product list \<Rightarrow> product list" where
  "loadProducts fetched old =
     (case fetched of Some products \<Rightarrow> map with_id products | None \<Rightarrow> old)"

section \<open>Filtering\<close>

text \<open>
  Lines 90 to 111 of \<^verbatim>\<open>filterAndDisplayProducts\<close>: the list handed to
  \<^verbatim>\<open>displayProducts\<close>, from the value of the category selector, the text of the search
  box and the catalog. An empty string is falsy, so either filter is skipped on it.
\<close>

definition matches_search :: "string \<Rightarrow> product \<Rightarrow> bool" where
  "matches_search searchTerm p =
     (includes_str (toLowerCase (name p)) searchTerm \<or>
      includes_str (toLowerCase (brand p)) searchTerm \<or>
      includes_str (toLowerCase (description p)) searchTerm)"

definition filteredProducts :: "string \<Rightarrow> string \<Rightarrow> product list \<Rightarrow> product list" where
  "filteredProducts selectedCategory searchInput ps =
     (let searchTerm = trim (toLowerCase searchInput);
          byCategory = (if selectedCategory \<noteq> []
                        then filter (\<lambda>p. category p = selectedCategory) ps else ps)
      in if searchTerm \<noteq> [] then filter (matches_search searchTerm) byCategory
         else byCategory)"

section \<open>JSON text\<close>

text \<open>
  \<^verbatim>\<open>JSON.stringify\<close> on the values the script passes to it: strings, arrays and objects
  whose members are strings. A string is quoted with the escapes of ECMAScript's
  QuoteJSONString; members are separated by commas with no white space.
\<close>

definition hex_digit :: "nat \<Rightarrow> char" where
  "hex_digit n = ''0123456789abcdef'' ! (n mod 16)"

definition quote_unit :: "char \<Rightarrow> string" where
  \<open>quote_unit c =
     (let n = code_unit c in
      if n = 34 then [CHR 0x5C, CHR 0x22]
      else if n = 92 then [CHR 0x5C, CHR 0x5C]
      else if n = 8 then [CHR 0x5C, CHR ''b'']
      else if n = 9 then [CHR 0x5C, CHR ''t'']
      else if n = 10 then [CHR 0x5C, CHR ''n'']
      else if n = 12 then [CHR 0x5C, CHR ''f'']
      else if n = 13 then [CHR 0x5C, CHR ''r'']
      else if n < 32 then [CHR 0x5C, CHR ''u'', CHR ''0'', CHR ''0'',
                           hex_digit (n div 16), hex_digit n]
      else [c])\<close>

definition JSON_string :: "string \<Rightarrow> string" where
  "JSON_string s = [CHR 0x22] @ concat (map quote_unit s) @ [CHR 0x22]"

fun join :: "string \<Rightarrow> string list \<Rightarrow> string" where
  "join sep [] = []"
| "join sep [x] = x"
| "join sep (x # y # ys) = x @ sep @ join sep (y # ys)"

definition JSON_array :: "string list \<Rightarrow> string" where
  "JSON_array members = ''['' @ join '','' members @ '']''"

definition JSON_object :: "(string \<times> string) list \<Rightarrow> string" where
  "JSON_object props =
     ''{'' @ join '','' (map (\<lambda>(k, v). JSON_string k @ '':'' @ JSON_string v) props) @ ''}''"

section \<open>Selection\<close>

text \<open>
  A JavaScript \<^verbatim>\<open>Set\<close> iterates in insertion order, and the order is what
  \<^verbatim>\<open>[...selectedProductIds]\<close> serialises: the set is the list of its members in that
  order. \<^verbatim>\<open>add\<close> of a member changes nothing, \<^verbatim>\<open>add\<close> of a new value appends it,
  \<^verbatim>\<open>delete\<close> removes the value.
\<close>

definition Set_has :: "string \<Rightarrow> string list \<Rightarrow> bool" where
  "Set_has x xs = (x \<in> set xs)"

definition Set_add :: "string \<Rightarrow> string list \<Rightarrow> string list" where
  "Set_add x xs = (if x \<in> set xs then xs else xs @ [x])"

definition Set_delete :: "string \<Rightarrow> string list \<Rightarrow> string list" where
  "Set_delete x xs = removeAll x xs"

definition Set_of_array :: "string list \<Rightarrow> string list" where
  "Set_of_array xs = foldl (\<lambda>acc x. Set_add x acc) [] xs"

text \<open>A product card of the page: its \<^verbatim>\<open>data-product-id\<close> and whether its class list
  holds \<^verbatim>\<open>selected\<close>.\<close>

record card =
  data_product_id :: string
  selected :: bool

text \<open>A child of the selected-products panel: the notice of line 150 or a tag of line 158.\<close>

datatype panel_child = NoSelectionNotice | ProductTag string string string

text \<open>A message of the chat history, and a child of the chat window.\<close>

record message =
  role :: string
  content :: string

record chat_div =
  classList :: "string list"
  element_id :: "string option"
  innerHTML :: string

text \<open>
  An answer of the remote endpoint as the two handlers see it: \<^verbatim>\<open>fetch\<close> rejects, or
  resolves with a status and a body. The body is not JSON (\<^verbatim>\<open>response.json()\<close> rejects),
  is \<^verbatim>\<open>null\<close> (reading \<^verbatim>\<open>data.response\<close> throws), is another JSON value whose
  \<^verbatim>\<open>response\<close> is not a string (\<^verbatim>\<open>content.replace\<close> throws inside
  \<^verbatim>\<open>appendMessageToChat\<close>), or carries a string reply.
\<close>

datatype json_body = NotJson | JsonNull | JsonWithoutReply | JsonReply string

datatype fetch_result = NetworkFailure | HttpResponse nat json_body

datatype exchange = RoutineExchange | FollowUpExchange

text \<open>
  The global state of the script and the parts of the page it writes. An entry of
  \<^verbatim>\<open>chatHistory\<close> is \<open>None\<close> where the array holds \<^verbatim>\<open>undefined\<close>. \<open>posted\<close> lists
  the \<^verbatim>\<open>messages\<close> arrays sent to \<^verbatim>\<open>WORKER_ENDPOINT\<close> so far, \<open>inFlight\<close> the exchanges
  whose handler is suspended at its \<^verbatim>\<open>await\<close>. \<open>productsContainer\<close> holds the cards
  that \<^verbatim>\<open>toggleProductSelection\<close> can be handed, \<open>chatWindow\<close> the message elements
  that \<^verbatim>\<open>appendMessageToChat\<close> has appended and that are still there.
\<close>

record app_state =
  productsData :: "product list"
  selectedProductIds :: "string list"
  storedSelection :: "string option"
  chatHistory :: "message option list"
  categoryFilter :: string
  productSearchInput :: string
  userInput :: string
  productsContainer :: "card list"
  selectedProductsList :: "panel_child list"
  chatWindow :: "chat_div list"
  posted :: "message option list list"
  inFlight :: "exchange list"

text \<open>\<^verbatim>\<open>updateSelectedProductsUI\<close>, lines 146 to 179: ids with no product are skipped.\<close>

definition find_product :: "product list \<Rightarrow> string \<Rightarrow> product option" where
  "find_product ps i = find (\<lambda>p. id_p p = i) ps"

definition updateSelectedProductsUI :: "app_state \<Rightarrow> app_state" where
  "updateSelectedProductsUI s =
     s\<lparr>selectedProductsList :=
          (if selectedProductIds s = [] then [NoSelectionNotice]
           else List.map_filter
                  (\<lambda>i. map_option (\<lambda>p. ProductTag (name p) (brand p) i)
                          (find_product (productsData s) i))
                  (selectedProductIds s))\<rparr>"

text \<open>
  \<^verbatim>\<open>toggleProductSelection\<close>, lines 127 to 141. \<open>cardElement\<close> is the position of the
  card in the container, or \<open>None\<close> for \<^verbatim>\<open>null\<close>.
\<close>

definition set_card_selected :: "nat option \<Rightarrow> bool \<Rightarrow> card list \<Rightarrow> card list" where
  "set_card_selected cardElement b cards =
     (case cardElement of
        None \<Rightarrow> cards
      | Some i \<Rightarrow> if i < length cards then cards[i := (cards ! i)\<lparr>selected := b\<rparr>] else cards)"

definition toggleProductSelection :: "string \<Rightarrow> nat option \<Rightarrow> app_state \<Rightarrow> app_state" where
  "toggleProductSelection productId cardElement s =
     (let s1 = (if Set_has productId (selectedProductIds s)
                then s\<lparr>selectedProductIds := Set_delete productId (selectedProductIds s),
                       productsContainer :=
                         set_card_selected cardElement False (productsContainer s)\<rparr>
                else s\<lparr>selectedProductIds := Set_add productId (selectedProductIds s),
                       productsContainer :=
                         set_card_selected cardElement True (productsContainer s)\<rparr>);
          s2 = s1\<lparr>storedSelection :=
                    Some (JSON_array (map JSON_string (selectedProductIds s1)))\<rparr>
      in updateSelectedProductsUI s2)"

section \<open>Chat window\<close>

text \<open>\<^verbatim>\<open>content.replace(/\n/g, '<br>')\<close>, line 216.\<close>

definition nl2br :: "string \<Rightarrow> string" where
  "nl2br s = concat (map (\<lambda>c. if c = CHR 0x0A then ''<br>'' else [c]) s)"

text \<open>
  The pattern \<^verbatim>\<open>/(https?:\/\/[^\s<]+)/g\<close> of line 220. \<open>url_at s\<close> is its match at the
  start of \<open>s\<close>: one of the two schemes, then the longest non-empty run of code units that
  are neither white space nor \<^verbatim>\<open><\<close>.
\<close>

definition url_char :: "char \<Rightarrow> bool" where
  "url_char c = (\<not> is_space c \<and> c \<noteq> CHR ''<'')"

definition url_at :: "string \<Rightarrow> string option" where
  "url_at s =
     (let scheme = (if prefix ''https://'' s then ''https://''
                    else if prefix ''http://'' s then ''http://'' else []);
          run = takeWhile url_char (drop (length scheme) s)
      in if scheme = [] \<or> run = [] then None else Some (scheme @ run))"

definition citation :: "string \<Rightarrow> string" where
  \<open>citation url = '' <a href="'' @ url @ ''" target="_blank" class="citation">[Source]</a>''\<close>

text \<open>
  What an HTML parser reads back from a citation: the value of a double-quoted attribute
  ends at the next double quote, so the \<^verbatim>\<open>href\<close> is the text between \<^verbatim>\<open>href="\<close> and the
  first double quote behind it (for a text without character references).
\<close>

definition href_read :: "string \<Rightarrow> string" where
  \<open>href_read anchor = takeWhile (\<lambda>c. c \<noteq> CHR 0x22) (drop (length '' <a href="'') anchor)\<close>

text \<open>
  The global replacement of line 221: the text is scanned from the left, a match is
  replaced by its citation and the scan goes on behind it, any other code unit is kept.
\<close>

function linkify :: "string \<Rightarrow> string" where
  "linkify s =
     (if s = [] then []
      else case url_at s of
             Some url \<Rightarrow> citation url @ linkify (drop (length url) s)
           | None \<Rightarrow> hd s # linkify (tl s))"
  by pat_completeness auto
termination
  by (relation "measure length") (auto simp: url_at_def Let_def split: if_splits)

text \<open>
  \<^verbatim>\<open>appendMessageToChat\<close>, lines 211 to 235: the element it appends, with the markup it
  assigns to \<^verbatim>\<open>innerHTML\<close>. The browser parses that markup; the elements it makes of
  it inside the message are not part of the model.
\<close>

definition message_div :: "string \<Rightarrow> string \<Rightarrow> bool \<Rightarrow> chat_div" where
  \<open>message_div sender content' isLoading =
     (let displayContent = linkify (nl2br content');
          cls = [''message'', if sender = ''User'' then ''message-user'' else ''message-ai'']
      in if isLoading
         then \<lparr>classList = cls @ [''loading-indicator''],
               element_id = Some ''loading-message'',
               innerHTML = ''<strong>'' @ sender @ ''</strong>: '' @ displayContent
                           @ '' <i class="fa-solid fa-ellipsis fa-beat-fade"></i>''\<rparr>
         else \<lparr>classList = cls, element_id = None,
               innerHTML = ''<strong>'' @ sender @ ''</strong>: '' @ displayContent\<rparr>)\<close>

definition appendMessageToChat :: "string \<Rightarrow> string \<Rightarrow> bool \<Rightarrow> app_state \<Rightarrow> app_state" where
  "appendMessageToChat sender content' isLoading s =
     s\<lparr>chatWindow := chatWindow s @ [message_div sender content' isLoading]\<rparr>"

text \<open>
  \<^verbatim>\<open>removeLoadingMessage\<close>, lines 237 to 242. \<^verbatim>\<open>document.getElementById\<close> returns the
  first element of the whole document with the id; the model looks at the message
  elements themselves, where the script sets the id, and removes the first placeholder
  among them. It is exact as long as no other element of the page carries the id; markup
  inside a message can make one. The history and the requests do not depend on the
  element that is removed.
\<close>

definition is_loading :: "chat_div \<Rightarrow> bool" where
  "is_loading d = (element_id d = Some ''loading-message'')"

fun remove_first :: "('a \<Rightarrow> bool) \<Rightarrow> 'a list \<Rightarrow> 'a list" where
  "remove_first P [] = []"
| "remove_first P (x # xs) = (if P x then xs else x # remove_first P xs)"

definition removeLoadingMessage :: "app_state \<Rightarrow> app_state" where
  "removeLoadingMessage s = s\<lparr>chatWindow := remove_first is_loading (chatWindow s)\<rparr>"

section \<open>Chat session\<close>

definition SYSTEM_PROMPT :: string where
  "SYSTEM_PROMPT =
     ''You are the L'Or'' @ [CHR 0xE9] @ ''al AI Routine Advisor. Your task is to analyze the user's selected products and generate a personalized daily AM/PM routine. The routine must be structured, step-by-step, and explain *why* each product is used at that time. Be encouraging, professional, concise, and do not include any links or external text unless specifically asked to search the web.''"

definition system_message :: message where
  "system_message = \<lparr>role = ''system'', content = SYSTEM_PROMPT\<rparr>"

text \<open>
  The state when the script has run its top level, lines 15 to 26, from the array held
  under the storage key (\<open>None\<close> when the key is absent), written there by line 137.
\<close>

definition initial_state :: "string list option \<Rightarrow> app_state" where
  "initial_state stored =
     \<lparr>productsData = [],
      selectedProductIds = (case stored of None \<Rightarrow> [] | Some ids \<Rightarrow> Set_of_array ids),
      storedSelection = map_option (\<lambda>ids. JSON_array (map JSON_string ids)) stored,
      chatHistory = [Some system_message],
      categoryFilter = [], productSearchInput = [], userInput = [],
      productsContainer = [], selectedProductsList = [], chatWindow = [],
      posted = [], inFlight = []\<rparr>"

text \<open>\<^verbatim>\<open>response.ok\<close>, and the reply the \<^verbatim>\<open>try\<close> block gets out of an answer.\<close>

definition ok :: "nat \<Rightarrow> bool" where
  "ok status = (200 \<le> status \<and> status \<le> 299)"

text \<open>
  \<^verbatim>\<open>generateRoutine\<close>, lines 249 to 311, up to its \<^verbatim>\<open>await fetch\<close>: the guard, the
  reset of the history, the prompt, the two chat lines and the request.
\<close>

definition selectedProductsData :: "app_state \<Rightarrow> (string \<times> string) list list" where
  "selectedProductsData s =
     List.map_filter
       (\<lambda>i. map_option
               (\<lambda>p. [(''name'', name p), (''brand'', brand p),
                      (''category'', category p), (''description'', description p)])
               (find_product (productsData s) i))
       (selectedProductIds s)"

definition routine_instruction :: string where
  "routine_instruction =
     ''Generate a comprehensive AM/PM routine tailored to my needs using *only* the following L'Or''
     @ [CHR 0xE9] @ ''al product data. Structure your response clearly with AM and PM sections. Product JSON: ''"

definition routinePrompt :: "app_state \<Rightarrow> string" where
  "routinePrompt s =
     routine_instruction @ JSON_array (map JSON_object (selectedProductsData s))"

definition first_entry :: "message option list \<Rightarrow> message option" where
  "first_entry h = (case h of [] \<Rightarrow> None | m # _ \<Rightarrow> m)"

definition send_history :: "exchange \<Rightarrow> app_state \<Rightarrow> app_state" where
  "send_history k s = s\<lparr>posted := posted s @ [chatHistory s], inFlight := inFlight s @ [k]\<rparr>"

definition generateRoutine_begin :: "app_state \<Rightarrow> app_state" where
  "generateRoutine_begin s =
     (if selectedProductIds s = []
      then appendMessageToChat ''AI Advisor''
             ''Please select at least one product before generating a routine.'' False s
      else
        let s1 = s\<lparr>chatHistory := [first_entry (chatHistory s)]\<rparr>;
            s2 = s1\<lparr>chatHistory :=
                      chatHistory s1 @ [Some \<lparr>role = ''user'', content = routinePrompt s1\<rparr>]\<rparr>;
            s3 = appendMessageToChat ''User''
                   ''Please generate a personalized routine for me.'' False s2;
            s4 = appendMessageToChat ''AI Advisor''
                   ''Generating your personalized routine...'' True s3
        in send_history RoutineExchange s4)"

text \<open>
  The \<^verbatim>\<open>try\<close> block behind the \<^verbatim>\<open>await\<close>, lines 292 to 304 and again 341 to 351:
  \<open>Inl\<close> is the state at a \<^verbatim>\<open>throw\<close>, \<open>Inr\<close> the state when the block has run to
  its end.
\<close>

definition try_reply :: "fetch_result \<Rightarrow> app_state \<Rightarrow> app_state + app_state" where
  "try_reply r s =
     (case r of
        NetworkFailure \<Rightarrow> Inl s
      | HttpResponse status body \<Rightarrow>
          if \<not> ok status then Inl s
          else (case body of
                  NotJson \<Rightarrow> Inl s
                | JsonNull \<Rightarrow> Inl s
                | JsonWithoutReply \<Rightarrow> Inl (removeLoadingMessage s)
                | JsonReply aiResponse \<Rightarrow>
                    let s1 = removeLoadingMessage s;
                        s2 = appendMessageToChat ''AI Advisor'' aiResponse False s1
                    in Inr (s2\<lparr>chatHistory :=
                                 chatHistory s2
                                 @ [Some \<lparr>role = ''assistant'', content = aiResponse\<rparr>]\<rparr>)))"

text \<open>\<^verbatim>\<open>generateRoutine\<close> behind its \<^verbatim>\<open>await\<close>, with the \<^verbatim>\<open>catch\<close> of lines 306 to 310.\<close>

definition generateRoutine_settle :: "fetch_result \<Rightarrow> app_state \<Rightarrow> app_state" where
  "generateRoutine_settle r s =
     (case try_reply r s of
        Inr s' \<Rightarrow> s'
      | Inl s' \<Rightarrow>
          appendMessageToChat ''AI Advisor''
            ''Error generating routine. Please check your worker endpoint/API key.'' False
            (removeLoadingMessage s'))"

text \<open>
  The submit handler of the chat form, lines 316 to 360: up to its \<^verbatim>\<open>await fetch\<close>, and
  behind it with the \<^verbatim>\<open>catch\<close> of lines 353 to 359. \<^verbatim>\<open>pop\<close> on an empty array leaves
  it empty.
\<close>

definition chatForm_submit :: "app_state \<Rightarrow> app_state" where
  "chatForm_submit s =
     (let userMessage = trim (userInput s) in
      if userMessage = [] then s
      else
        let s1 = appendMessageToChat ''User'' userMessage False s;
            s2 = s1\<lparr>userInput := []\<rparr>;
            s3 = s2\<lparr>chatHistory :=
                      chatHistory s2 @ [Some \<lparr>role = ''user'', content = userMessage\<rparr>]\<rparr>;
            s4 = appendMessageToChat ''AI Advisor'' ''Thinking...'' True s3
        in send_history FollowUpExchange s4)"

definition chatForm_settle :: "fetch_result \<Rightarrow> app_state \<Rightarrow> app_state" where
  "chatForm_settle r s =
     (case try_reply r s of
        Inr s' \<Rightarrow> s'
      | Inl s' \<Rightarrow>
          let s1 = appendMessageToChat ''AI Advisor''
                     ''Error continuing conversation. Please try again.'' False
                     (removeLoadingMessage s')
          in s1\<lparr>chatHistory := butlast (chatHistory s1)\<rparr>)"

text \<open>
  The events of the chat session. The page is single-threaded: a handler runs to its
  \<^verbatim>\<open>await\<close> without interruption, and the rest of it runs when the answer arrives, after
  whatever other handlers ran in between. \<open>Settle i r\<close> delivers the answer \<open>r\<close> to the
  \<open>i\<close>-th exchange in flight; nothing in the script orders the answers or stops a user
  from starting an exchange while another is in flight.
\<close>

datatype event = ClickGenerate | SubmitChat string | Settle nat fetch_result

definition settle :: "nat \<Rightarrow> fetch_result \<Rightarrow> app_state \<Rightarrow> app_state" where
  "settle i r s =
     (if i < length (inFlight s)
      then let s' = s\<lparr>inFlight := take i (inFlight s) @ drop (Suc i) (inFlight s)\<rparr>
           in (case inFlight s ! i of
                 RoutineExchange \<Rightarrow> generateRoutine_settle r s'
               | FollowUpExchange \<Rightarrow> chatForm_settle r s')
      else s)"

fun step :: "app_state \<Rightarrow> event \<Rightarrow> app_state" where
  "step s ClickGenerate = generateRoutine_begin s"
| "step s (SubmitChat text) = chatForm_submit (s\<lparr>userInput := text\<rparr>)"
| "step s (Settle i r) = settle i r s"

definition run :: "app_state \<Rightarrow> event list \<Rightarrow> app_state" where
  "run s evs = foldl step s evs"

text \<open>
  An exchange that nothing interrupts: the handler starts, and the answer to the request
  it has just sent, if it sent one, is the next event.
\<close>

definition settle_latest :: "app_state \<Rightarrow> fetch_result \<Rightarrow> app_state \<Rightarrow> app_state" where
  "settle_latest before r s =
     (if length (inFlight before) < length (inFlight s)
      then settle (length (inFlight s) - 1) r s else s)"

definition generateRoutine :: "fetch_result \<Rightarrow> app_state \<Rightarrow> app_state" where
  "generateRoutine r s = settle_latest s r (generateRoutine_begin s)"

definition followUp :: "string \<Rightarrow> fetch_result \<Rightarrow> app_state \<Rightarrow> app_state" where
  "followUp text r s = settle_latest s r (chatForm_submit (s\<lparr>userInput := text\<rparr>))"

datatype operation = Generate fetch_result | FollowUp string fetch_result

fun perform :: "app_state \<Rightarrow> operation \<Rightarrow> app_state" where
  "perform s (Generate r) = generateRoutine r s"
| "perform s (FollowUp text r) = followUp text r s"

text \<open>The failures of the remote endpoint: no answer, or a status outside 200 to 299.\<close>

fun endpoint_failure :: "fetch_result \<Rightarrow> bool" where
  "endpoint_failure NetworkFailure = True"
| "endpoint_failure (HttpResponse status body) = (\<not> ok status)"

text \<open>The invariant of the specification: the history starts with the system message.\<close>

definition system_first :: "message option list \<Rightarrow> bool" where
  "system_first h = (case h of Some m # _ \<Rightarrow> role m = ''system'' | _ \<Rightarrow> False)"

section \<open>Example data\<close>

text \<open>The product of the specification's search scenario, and states built on it.\<close>

definition serum_raw :: raw_product where
  "serum_raw = \<lparr>name = ''Vitamin C Serum'', brand = ''X'', category = ''serum'',
                 description = ''Brightens'', image = ''serum.png''\<rparr>"

definition vitamin :: product where
  "vitamin = \<lparr>name = ''Vitamin C Serum'', brand = ''X'', category = ''serum'',
               description = ''Brightens'', image = ''serum.png'',
               id_p = ''vitamin-c-serum''\<rparr>"

definition one_selected :: app_state where
  "one_selected = (initial_state (Some [''vitamin-c-serum'']))\<lparr>productsData := [vitamin]\<rparr>"

definition stale_selected :: app_state where
  "stale_selected = (initial_state (Some [''discontinued-cream'']))\<lparr>productsData := [vitamin]\<rparr>"

section \<open>Properties of the string functions\<close>

declare linkify.simps [simp del]

lemma code_unit_char_of: "n < 256 \<Longrightarrow> code_unit (char_of n) = n"
  by (simp add: code_unit_def)

lemma is_space_lower_unit: "is_space (lower_unit c) = is_space c"
  by (auto simp: is_space_def lower_unit_def Let_def code_unit_char_of)

lemma includes_str_sublist: "includes_str s t = sublist t s"
  by (induction s) (auto simp: sublist_Cons_right)

lemma dropWhile_all: "\<forall>c\<in>set pre. P c \<Longrightarrow> dropWhile P (pre @ s) = dropWhile P s"
  by (induction pre) auto

lemma dropWhile_all_nil: "\<forall>c\<in>set s. P c \<Longrightarrow> dropWhile P s = []"
  by simp

lemma trim_padded:
  assumes pre: "\<forall>c\<in>set pre. is_space c" and post: "\<forall>c\<in>set post. is_space c"
  shows "trim (pre @ s @ post) = trim s"
proof (cases "\<forall>c\<in>set s. is_space c")
  case True
  with pre post have "\<forall>c\<in>set (pre @ s @ post). is_space c" by auto
  then have l: "dropWhile is_space (pre @ s @ post) = []" by (simp only: dropWhile_all_nil)
  from True have r: "dropWhile is_space s = []" by simp
  show ?thesis by (simp only: trim_def l r)
next
  case False
  then have "dropWhile is_space (s @ post) = dropWhile is_space s @ post"
    by (auto simp: dropWhile_append1)
  moreover from post have "\<forall>c\<in>set (rev post). is_space c" by simp
  ultimately show ?thesis
    using pre by (simp add: trim_def dropWhile_all)
qed

lemma all_space_toLowerCase:
  "(\<forall>c\<in>set (toLowerCase s). is_space c) = (\<forall>c\<in>set s. is_space c)"
  by (simp add: toLowerCase_def is_space_lower_unit)

lemma searchTerm_padded:
  assumes "\<forall>c\<in>set pre. is_space c" and "\<forall>c\<in>set post. is_space c"
  shows "trim (toLowerCase (pre @ q @ post)) = trim (toLowerCase q)"
proof -
  have "toLowerCase (pre @ q @ post) = toLowerCase pre @ toLowerCase q @ toLowerCase post"
    by (simp add: toLowerCase_def)
  then show ?thesis
    using assms by (simp add: trim_padded all_space_toLowerCase)
qed

lemma matches_search_sublist:
  "matches_search t =
     (\<lambda>p. sublist t (toLowerCase (name p)) \<or> sublist t (toLowerCase (brand p)) \<or>
          sublist t (toLowerCase (description p)))"
  by (rule ext) (simp add: matches_search_def includes_str_sublist)

subsection \<open>The citation rewriting\<close>

lemma linkify_Nil [simp]: "linkify [] = []"
  by (simp add: linkify.simps)

lemma url_char_not_newline: "url_char c \<Longrightarrow> c \<noteq> CHR 0x0A"
  by (auto simp: url_char_def is_space_def code_unit_def)

lemma nl2br_append: "nl2br (a @ b) = nl2br a @ nl2br b"
  by (simp add: nl2br_def)

lemma nl2br_url_chars: "\<forall>c\<in>set u. url_char c \<Longrightarrow> nl2br u = u"
  by (induction u) (auto simp: nl2br_def dest: url_char_not_newline)

lemma nl2br_boundary:
  "post = [] \<or> \<not> url_char (hd post) \<Longrightarrow> nl2br post = [] \<or> \<not> url_char (hd (nl2br post))"
  by (cases post) (auto simp: nl2br_def url_char_def)

lemma takeWhile_body:
  "\<forall>c\<in>set body. P c \<Longrightarrow> post = [] \<or> \<not> P (hd post) \<Longrightarrow> takeWhile P (body @ post) = body"
  by (cases post) (auto simp: takeWhile_append2)

lemma scheme_url_chars:
  "scheme = ''http://'' \<or> scheme = ''https://'' \<Longrightarrow> \<forall>c\<in>set scheme. url_char c"
  by (auto simp: url_char_def is_space_def code_unit_def)

lemma url_at_match:
  assumes "scheme = ''http://'' \<or> scheme = ''https://''" and "body \<noteq> []"
    and "\<forall>c\<in>set body. url_char c" and "post = [] \<or> \<not> url_char (hd post)"
  shows "url_at (scheme @ body @ post) = Some (scheme @ body)"
  using assms(1)
proof
  assume "scheme = ''http://''"
  then show ?thesis
    using assms(2) takeWhile_body [OF assms(3,4)] by (simp add: url_at_def)
next
  assume "scheme = ''https://''"
  then show ?thesis
    using assms(2) takeWhile_body [OF assms(3,4)] by (simp add: url_at_def)
qed

lemma linkify_match:
  "url_at (u @ post) = Some u \<Longrightarrow> linkify (u @ post) = citation u @ linkify post"
  by (subst linkify.simps) (auto simp: url_at_def Let_def split: if_splits)

lemma linkify_no_match_before:
  "\<forall>i<length pre. url_at (drop i (pre @ rest)) = None \<Longrightarrow>
   linkify (pre @ rest) = pre @ linkify rest"
proof (induction pre)
  case Nil
  then show ?case by simp
next
  case (Cons c pre)
  from Cons.prems have "url_at (drop 0 ((c # pre) @ rest)) = None" by blast
  then have here: "url_at (c # pre @ rest) = None" by simp
  have "\<forall>i<length pre. url_at (drop i (pre @ rest)) = None"
  proof (intro allI impI)
    fix i assume "i < length pre"
    then have "Suc i < length (c # pre)" by simp
    with Cons.prems have "url_at (drop (Suc i) ((c # pre) @ rest)) = None" by blast
    then show "url_at (drop i (pre @ rest)) = None" by simp
  qed
  then have "linkify (pre @ rest) = pre @ linkify rest" by (rule Cons.IH)
  with here show ?case by (subst linkify.simps) simp
qed

section \<open>Properties of the handlers\<close>

lemma generateRoutine_begin_empty:
  "selectedProductIds s = [] \<Longrightarrow>
   generateRoutine_begin s =
     s\<lparr>chatWindow := chatWindow s @
        [message_div ''AI Advisor''
           ''Please select at least one product before generating a routine.'' False]\<rparr>"
  by (simp add: generateRoutine_begin_def appendMessageToChat_def)

lemma selectedProductsData_reset [simp]:
  "selectedProductsData (s\<lparr>chatHistory := h\<rparr>) = selectedProductsData s"
  by (simp add: selectedProductsData_def)

lemma routinePrompt_reset [simp]:
  "routinePrompt (s\<lparr>chatHistory := h\<rparr>) = routinePrompt s"
  by (simp add: routinePrompt_def)

lemma generateRoutine_begin_selected:
  "selectedProductIds s \<noteq> [] \<Longrightarrow>
   generateRoutine_begin s =
     s\<lparr>chatHistory := [first_entry (chatHistory s),
                         Some \<lparr>role = ''user'', content = routinePrompt s\<rparr>],
       chatWindow := chatWindow s @
         [message_div ''User'' ''Please generate a personalized routine for me.'' False,
          message_div ''AI Advisor'' ''Generating your personalized routine...'' True],
       posted := posted s @ [[first_entry (chatHistory s),
                         Some \<lparr>role = ''user'', content = routinePrompt s\<rparr>]],
       inFlight := inFlight s @ [RoutineExchange]\<rparr>"
  by (simp add: generateRoutine_begin_def appendMessageToChat_def send_history_def Let_def)

lemma chatForm_submit_nonempty:
  "trim (userInput s) \<noteq> [] \<Longrightarrow>
   chatForm_submit s =
     s\<lparr>chatWindow := chatWindow s @
         [message_div ''User'' (trim (userInput s)) False,
          message_div ''AI Advisor'' ''Thinking...'' True],
       userInput := [],
       chatHistory :=
         chatHistory s @ [Some \<lparr>role = ''user'', content = trim (userInput s)\<rparr>],
       posted := posted s @
         [chatHistory s @ [Some \<lparr>role = ''user'', content = trim (userInput s)\<rparr>]],
       inFlight := inFlight s @ [FollowUpExchange]\<rparr>"
  by (simp add: chatForm_submit_def appendMessageToChat_def send_history_def Let_def)

lemma chatForm_submit_empty:
  "trim (userInput s) = [] \<Longrightarrow> chatForm_submit s = s"
  by (simp add: chatForm_submit_def)

lemma try_reply_failure:
  "endpoint_failure r \<Longrightarrow> try_reply r s = Inl s"
  by (cases r) (simp_all add: try_reply_def)

lemma try_reply_success:
  "ok status \<Longrightarrow>
   try_reply (HttpResponse status (JsonReply a)) s =
     Inr (s\<lparr>chatWindow :=
              remove_first is_loading (chatWindow s) @ [message_div ''AI Advisor'' a False],
            chatHistory := chatHistory s @ [Some \<lparr>role = ''assistant'', content = a\<rparr>]\<rparr>)"
  by (simp add: try_reply_def removeLoadingMessage_def appendMessageToChat_def Let_def)

lemma try_reply_cases:
  "(\<exists>s'. try_reply r s = Inl s' \<and> chatHistory s' = chatHistory s) \<or>
   (\<exists>s' a. try_reply r s = Inr s' \<and>
      chatHistory s' = chatHistory s @ [Some \<lparr>role = ''assistant'', content = a\<rparr>])"
  by (cases r)
     (auto simp: try_reply_def removeLoadingMessage_def appendMessageToChat_def Let_def
           split: json_body.splits)

lemma settle_latest_begin:
  "selectedProductIds s \<noteq> [] \<Longrightarrow>
   generateRoutine r s =
     generateRoutine_settle r ((generateRoutine_begin s)\<lparr>inFlight := inFlight s\<rparr>)"
  by (simp add: generateRoutine_def settle_latest_def settle_def generateRoutine_begin_selected
        nth_append Let_def)

lemma settle_latest_submit:
  "trim text \<noteq> [] \<Longrightarrow>
   followUp text r s =
     chatForm_settle r ((chatForm_submit (s\<lparr>userInput := text\<rparr>))\<lparr>inFlight := inFlight s\<rparr>)"
  by (simp add: followUp_def settle_latest_def settle_def chatForm_submit_nonempty
        nth_append Let_def)

lemma selectedProductIds_toggle:
  "selectedProductIds (toggleProductSelection x c s) =
     (if x \<in> set (selectedProductIds s) then removeAll x (selectedProductIds s)
      else selectedProductIds s @ [x])"
  by (simp add: toggleProductSelection_def updateSelectedProductsUI_def Set_has_def
        Set_add_def Set_delete_def Let_def)

lemma storedSelection_toggle:
  "storedSelection (toggleProductSelection x c s) =
     Some (JSON_array (map JSON_string (selectedProductIds (toggleProductSelection x c s))))"
  by (simp add: toggleProductSelection_def updateSelectedProductsUI_def Set_has_def
        Set_add_def Set_delete_def Let_def)

section \<open>Claims\<close>

subsection \<open>Selection store\<close>

text \<open>
  Claim C1, as stated: toggling the same id twice restores the membership of the selection
  and the serialized array in storage. The second half fails: a \<^verbatim>\<open>Set\<close> appends a
  value that was deleted and added again, so toggling \<^verbatim>\<open>a\<close> twice in the selection
  \<^verbatim>\<open>["a","b"]\<close> stores \<^verbatim>\<open>["b","a"]\<close>.
\<close>

theorem toggle_twice_storage_counterexample:
  "storedSelection
     (toggleProductSelection ''a'' None
        (toggleProductSelection ''a'' None (initial_state (Some [''a'', ''b'']))))
   \<noteq> storedSelection (initial_state (Some [''a'', ''b'']))"
  by code_simp

text \<open>
  Claim C1, amended: toggling the same id twice leaves the selection with the same members;
  storage then holds the serialization of the selection, in which an id that was not
  selected before leaves the order as it was, and an id that was selected has moved to the
  end.
\<close>

theorem toggle_twice:
  "set (selectedProductIds (toggleProductSelection x c' (toggleProductSelection x c s)))
     = set (selectedProductIds s)
   \<and> selectedProductIds (toggleProductSelection x c' (toggleProductSelection x c s))
     = (if x \<in> set (selectedProductIds s) then removeAll x (selectedProductIds s) @ [x]
        else selectedProductIds s)
   \<and> storedSelection (toggleProductSelection x c' (toggleProductSelection x c s))
     = Some (JSON_array (map JSON_string
         (if x \<in> set (selectedProductIds s) then removeAll x (selectedProductIds s) @ [x]
          else selectedProductIds s)))"
  by (auto simp: selectedProductIds_toggle storedSelection_toggle)

theorem toggle_twice_witness:
  \<open>storedSelection
     (toggleProductSelection ''a'' None
        (toggleProductSelection ''a'' None (initial_state (Some [''a'', ''b'']))))
     = Some ''["b","a"]''
   \<and> storedSelection
     (toggleProductSelection ''c'' None
        (toggleProductSelection ''c'' None (initial_state (Some [''a'', ''b'']))))
     = storedSelection (initial_state (Some [''a'', ''b'']))\<close>
proof -
  have ids: "selectedProductIds (initial_state (Some [''a'', ''b''])) = [''a'', ''b'']"
    by code_simp
  have js: \<open>JSON_array [JSON_string ''b'', JSON_string ''a''] = ''["b","a"]''\<close>
    by code_simp
  have st: "storedSelection (initial_state (Some [''a'', ''b''])) =
              Some (JSON_array (map JSON_string [''a'', ''b'']))"
    by (simp add: initial_state_def)
  from toggle_twice [of "''a''" None None "initial_state (Some [''a'', ''b''])"]
       toggle_twice [of "''c''" None None "initial_state (Some [''a'', ''b''])"]
  show ?thesis
    by (simp add: ids js st)
qed

subsection \<open>Chat history\<close>

text \<open>
  The history keeps the system message in front through every sequence of exchanges that
  run one after the other, whatever the endpoint answers.
\<close>

lemma perform_system_first:
  assumes "system_first (chatHistory s)"
  shows "system_first (chatHistory (perform s op))"
proof -
  from assms obtain m rest where h: "chatHistory s = Some m # rest" and m: "role m = ''system''"
    by (auto simp: system_first_def split: list.splits option.splits)
  show ?thesis
  proof (cases op)
    case (Generate r)
    show ?thesis
    proof (cases "selectedProductIds s = []")
      case True
      with assms Generate show ?thesis
        by (simp add: generateRoutine_def settle_latest_def generateRoutine_begin_empty)
    next
      case False
      let ?b = "(generateRoutine_begin s)\<lparr>inFlight := inFlight s\<rparr>"
      have hb: "chatHistory ?b = [Some m, Some \<lparr>role = ''user'', content = routinePrompt s\<rparr>]"
        using False h by (simp add: generateRoutine_begin_selected first_entry_def)
      from try_reply_cases [of r ?b] hb m have
        "system_first (chatHistory (generateRoutine_settle r ?b))"
        by (auto simp: generateRoutine_settle_def system_first_def appendMessageToChat_def
              removeLoadingMessage_def)
      with False Generate show ?thesis by (simp add: settle_latest_begin)
    qed
  next
    case (FollowUp msg r)
    show ?thesis
    proof (cases "trim msg = []")
      case True
      with assms FollowUp show ?thesis
        by (simp add: followUp_def settle_latest_def chatForm_submit_empty)
    next
      case False
      let ?b = "(chatForm_submit (s\<lparr>userInput := msg\<rparr>))\<lparr>inFlight := inFlight s\<rparr>"
      have hb: "chatHistory ?b = Some m # rest @ [Some \<lparr>role = ''user'', content = trim msg\<rparr>]"
        using False h by (simp add: chatForm_submit_nonempty)
      from try_reply_cases [of r ?b] hb m have
        "system_first (chatHistory (chatForm_settle r ?b))"
        by (auto simp: chatForm_settle_def system_first_def appendMessageToChat_def
              removeLoadingMessage_def butlast_append)
      with False FollowUp show ?thesis by (simp add: settle_latest_submit)
    qed
  qed
qed

lemma sequential_system_first:
  "system_first (chatHistory s) \<Longrightarrow> system_first (chatHistory (foldl perform s ops))"
  by (induction ops arbitrary: s) (simp_all add: perform_system_first)

lemma initial_system_first: "system_first (chatHistory (initial_state stored))"
  by (simp add: initial_state_def system_first_def system_message_def)

text \<open>
  Claim C2: the chat history is never empty and starts with the system message, for every
  sequence of generate and follow-up operations, failing ones included. The script breaks
  it when exchanges overlap: two follow-ups are in flight, a routine generation resets the
  history to the system message and appends its prompt, and then both follow-ups fail;
  each \<^verbatim>\<open>catch\<close> pops the last entry, the first the prompt and the second the system
  message, and the history is empty.
\<close>

theorem overlapping_failures_empty_history:
  "chatHistory
     (run (initial_state (Some [''vitamin-c-serum'']))
        [SubmitChat ''What about SPF?'', SubmitChat ''And at night?'', ClickGenerate,
         Settle 0 NetworkFailure, Settle 0 NetworkFailure]) = []
   \<and> \<not> system_first (chatHistory
     (run (initial_state (Some [''vitamin-c-serum'']))
        [SubmitChat ''What about SPF?'', SubmitChat ''And at night?'', ClickGenerate,
         Settle 0 NetworkFailure, Settle 0 NetworkFailure]))"
  by code_simp

subsection \<open>Filter engine\<close>

text \<open>
  Claim C3: for every category, search text and catalog, the filter's result is the
  catalog's own products in catalog order, and it holds exactly the products that pass
  both tests: the category is the selected one when a category is selected, and the
  search term, lower-cased and trimmed, occurs in the lower-cased name, brand or
  description when the term is not empty. An empty category or term filters nothing.
\<close>

theorem filter_result:
  "subseq (filteredProducts cat q ps) ps \<and>
   filteredProducts cat q ps =
     filter (\<lambda>p. (cat = [] \<or> category p = cat) \<and>
                 (trim (toLowerCase q) = [] \<or>
                  sublist (trim (toLowerCase q)) (toLowerCase (name p)) \<or>
                  sublist (trim (toLowerCase q)) (toLowerCase (brand p)) \<or>
                  sublist (trim (toLowerCase q)) (toLowerCase (description p)))) ps"
proof -
  have eq: "filteredProducts cat q ps =
     filter (\<lambda>p. (cat = [] \<or> category p = cat) \<and>
                 (trim (toLowerCase q) = [] \<or>
                  sublist (trim (toLowerCase q)) (toLowerCase (name p)) \<or>
                  sublist (trim (toLowerCase q)) (toLowerCase (brand p)) \<or>
                  sublist (trim (toLowerCase q)) (toLowerCase (description p)))) ps"
    by (simp add: filteredProducts_def Let_def matches_search_sublist)
  have sub: "subseq (filteredProducts cat q ps) ps"
    by (simp add: eq)
  from sub eq show ?thesis by blast
qed

theorem filter_result_witness:
  "filteredProducts [] ''VITamin'' [vitamin] = [vitamin] \<and>
   filteredProducts [] ''retinol'' [vitamin] = [] \<and>
   filteredProducts ''toner'' ''vitamin'' [vitamin] = []"
proof -
  have t1: "trim (toLowerCase ''VITamin'') = ''vitamin''" by code_simp
  have t2: "trim (toLowerCase ''retinol'') = ''retinol''" by code_simp
  have t3: "trim (toLowerCase ''vitamin'') = ''vitamin''" by code_simp
  have n: "toLowerCase (name vitamin) = ''vitamin c serum''"
    and b: "toLowerCase (brand vitamin) = ''x''"
    and d: "toLowerCase (description vitamin) = ''brightens''"
    and c: "category vitamin = ''serum''"
    by code_simp+
  have s1: "sublist ''vitamin'' ''vitamin c serum''"
    by (simp add: flip: includes_str_sublist)
  have s2: "\<not> sublist ''retinol'' ''vitamin c serum''" "\<not> sublist ''retinol'' ''x''"
    "\<not> sublist ''retinol'' ''brightens''"
    by (simp_all add: flip: includes_str_sublist)
  from filter_result [of "[]" "''VITamin''" "[vitamin]"]
       filter_result [of "[]" "''retinol''" "[vitamin]"]
       filter_result [of "''toner''" "''vitamin''" "[vitamin]"]
  show ?thesis
    by (simp add: t1 t2 t3 n b d c s1 s2)
qed

subsection \<open>Failure policy\<close>

text \<open>
  When nothing happens between the start of an exchange and the failure of its request, a
  follow-up leaves the history as it was before it, and a routine generation keeps its
  prompt as the last entry.
\<close>

lemma uninterrupted_failure_history:
  assumes "endpoint_failure r"
  shows "(trim msg \<noteq> [] \<longrightarrow> chatHistory (followUp msg r s) = chatHistory s) \<and>
         (selectedProductIds s \<noteq> [] \<longrightarrow>
            chatHistory (generateRoutine r s) =
              [first_entry (chatHistory s),
               Some \<lparr>role = ''user'', content = routinePrompt s\<rparr>])"
  using assms
  by (simp add: settle_latest_submit chatForm_submit_nonempty chatForm_settle_def
        settle_latest_begin generateRoutine_begin_selected generateRoutine_settle_def
        try_reply_failure removeLoadingMessage_def appendMessageToChat_def)

text \<open>
  Claim C4: when the endpoint fails, a follow-up's user message is taken back out of the
  history, which is then what it was before the follow-up, while a failed routine
  generation keeps its user message. The script breaks the first half when follow-ups
  overlap: the \<^verbatim>\<open>catch\<close> of line 358 pops the last entry of the history, whichever
  message that is. With two follow-ups in flight and the first one failing, the message of
  the second is removed and the message of the failed one stays.
\<close>

theorem overlapping_follow_up_keeps_failed_message:
  "chatHistory
     (run (initial_state None)
        [SubmitChat ''What about SPF?'', SubmitChat ''And at night?'',
         Settle 0 NetworkFailure])
     = [Some system_message, Some \<lparr>role = ''user'', content = ''What about SPF?''\<rparr>]
   \<and> inFlight
     (run (initial_state None)
        [SubmitChat ''What about SPF?'', SubmitChat ''And at night?'',
         Settle 0 NetworkFailure])
     = [FollowUpExchange]
   \<and> chatHistory (initial_state None) = [Some system_message]"
  by code_simp

subsection \<open>Catalog loader\<close>

text \<open>
  Claim C5, as stated: the identifier is the lower-case name with runs of non-alphanumeric
  characters collapsed to a single hyphen. The script replaces every such character by a
  hyphen of its own: \<^verbatim>\<open>Cleanser & Toner\<close> becomes \<^verbatim>\<open>cleanser---toner\<close>.
\<close>

theorem derived_id_collapse_counterexample:
  "derive_id ''Cleanser & Toner'' = ''cleanser---toner'' \<and>
   derive_id ''Cleanser & Toner'' \<noteq> spec_collapsed_id ''Cleanser & Toner''"
  by code_simp

text \<open>
  Claim C5, amended: the identifier of a loaded product is a function of its name alone. It
  is as long as the lower-cased name, whatever \<^verbatim>\<open>toLowerCase\<close> makes of the name, and
  each of its code units is the code unit of the lower-cased name at that place when that
  is one of a to z or 0 to 9, and a hyphen otherwise.
\<close>

theorem derived_id_unitwise:
  "loadProducts (Some raws) old = map with_id raws \<and>
   id_p (with_id r) = derive_id (name r) \<and>
   length (derive_id n) = length (toLowerCase n) \<and>
   (\<forall>i<length (toLowerCase n). derive_id n ! i =
      (if is_az09 (toLowerCase n ! i) then toLowerCase n ! i else CHR ''-''))"
  by (simp add: loadProducts_def with_id_def raw_product.defs product.defs
        derive_id_def replace_non_az09_def)

theorem derived_id_unitwise_witness:
  "loadProducts (Some [serum_raw]) [] = [with_id serum_raw] \<and>
   id_p (with_id serum_raw) = ''vitamin-c-serum'' \<and>
   derive_id ''A & B'' ! 0 = CHR ''a'' \<and> derive_id ''A & B'' ! 1 = CHR ''-'' \<and>
   derive_id ''A & B'' ! 2 = CHR ''-'' \<and> length (derive_id ''A & B'') = 5"
proof -
  have l: "toLowerCase ''A & B'' = ''a & b''"
    by code_simp
  have a: "is_az09 (CHR ''a'')" "\<not> is_az09 (CHR '' '')" "\<not> is_az09 (CHR ''&'')"
    by code_simp+
  have v: "derive_id (name serum_raw) = ''vitamin-c-serum''"
    by code_simp
  from derived_id_unitwise [of "[serum_raw]" "[]" serum_raw "''A & B''"] a v
  show ?thesis by (simp add: l)
qed

subsection \<open>Routine generation\<close>

text \<open>
  Claim C6: with an empty selection, triggering routine generation sends nothing to the
  endpoint, appends the advisory line to the chat window, leaves the history as it was and
  starts no exchange; nothing else of the state changes.
\<close>

theorem generate_without_selection:
  assumes "selectedProductIds s = []"
  shows "step s ClickGenerate =
           s\<lparr>chatWindow := chatWindow s @
               [message_div ''AI Advisor''
                  ''Please select at least one product before generating a routine.'' False]\<rparr>
         \<and> posted (step s ClickGenerate) = posted s
         \<and> chatHistory (step s ClickGenerate) = chatHistory s
         \<and> inFlight (step s ClickGenerate) = inFlight s
         \<and> generateRoutine r s = step s ClickGenerate"
  using assms
  by (simp add: generateRoutine_begin_empty generateRoutine_def settle_latest_def)

theorem generate_without_selection_witness:
  \<open>posted (step (initial_state None) ClickGenerate) = [] \<and>
   inFlight (step (initial_state None) ClickGenerate) = [] \<and>
   chatHistory (step (initial_state None) ClickGenerate) = [Some system_message] \<and>
   map innerHTML (chatWindow (step (initial_state None) ClickGenerate)) =
     [''<strong>AI Advisor</strong>: Please select at least one product before generating a routine.'']\<close>
proof -
  have e: "selectedProductIds (initial_state None) = []"
    by (simp add: initial_state_def)
  have h: \<open>innerHTML (message_div ''AI Advisor''
             ''Please select at least one product before generating a routine.'' False) =
           ''<strong>AI Advisor</strong>: Please select at least one product before generating a routine.''\<close>
    by code_simp
  from generate_without_selection [OF e, of NetworkFailure] show ?thesis
    by (simp add: h) (simp add: initial_state_def)
qed

text \<open>
  The payload of the prompt, by product id: for each selected id in insertion order, the
  four fields of the first product of the catalog with that id, and nothing for an id that
  no product has.
\<close>

lemma find_product_filter:
  "find_product ps i = (case filter (\<lambda>p. id_p p = i) ps of [] \<Rightarrow> None | p # _ \<Rightarrow> Some p)"
  by (induction ps) (simp_all add: find_product_def)

lemma map_filter_concat:
  "List.map_filter f xs = concat (map (\<lambda>x. case f x of None \<Rightarrow> [] | Some y \<Rightarrow> [y]) xs)"
  by (induction xs) (simp_all add: List.map_filter_simps split: option.splits)

lemma selectedProductsData_by_id:
  "selectedProductsData s =
     concat (map (\<lambda>i. case filter (\<lambda>p. id_p p = i) (productsData s) of
                         [] \<Rightarrow> []
                       | p # _ \<Rightarrow> [[(''name'', name p), (''brand'', brand p),
                                     (''category'', category p),
                                     (''description'', description p)]])
                 (selectedProductIds s))"
  unfolding selectedProductsData_def map_filter_concat find_product_filter
  by (intro arg_cong [where f = concat] map_cong refl) (simp split: list.splits)

text \<open>
  When nothing happens between the click and the answer, a routine generation that starts
  from a history with the system message in front and gets a reply ends with the history
  system message, prompt, reply, and has sent the first two.
\<close>

lemma uninterrupted_generation:
  assumes "selectedProductIds s \<noteq> []" and "chatHistory s = Some m # rest"
    and "role m = ''system''" and "ok status"
  shows "chatHistory (generateRoutine_begin s) =
           [Some m, Some \<lparr>role = ''user'', content = routinePrompt s\<rparr>]
         \<and> posted (generateRoutine (HttpResponse status (JsonReply reply)) s) =
             posted s @ [[Some m, Some \<lparr>role = ''user'', content = routinePrompt s\<rparr>]]
         \<and> chatHistory (generateRoutine (HttpResponse status (JsonReply reply)) s) =
             [Some m, Some \<lparr>role = ''user'', content = routinePrompt s\<rparr>,
              Some \<lparr>role = ''assistant'', content = reply\<rparr>]"
  using assms
  by (simp add: settle_latest_begin generateRoutine_begin_selected generateRoutine_settle_def
        try_reply_success first_entry_def)

text \<open>
  Claim C7: a successful routine generation resets the history to the system message, and
  the history then becomes exactly system message, prompt, assistant reply, the prompt
  embedding the fields of each selected product; the history is what was sent. The script
  breaks it when exchanges overlap, by the defect of claim C2: with two follow-ups in
  flight when the routine is requested, the request carries system message and prompt, the
  two follow-ups fail and their \<^verbatim>\<open>catch\<close> pops the prompt and the system message, and
  the reply of the successful generation is then the only entry of the history.
\<close>

theorem overlapped_generation_history:
  "chatHistory
     (run one_selected
        [SubmitChat ''What about SPF?'', SubmitChat ''And at night?'', ClickGenerate,
         Settle 0 NetworkFailure, Settle 0 NetworkFailure,
         Settle 0 (HttpResponse 200 (JsonReply ''AM: serum PM: rest''))])
     = [Some \<lparr>role = ''assistant'', content = ''AM: serum PM: rest''\<rparr>]
   \<and> posted
     (run one_selected
        [SubmitChat ''What about SPF?'', SubmitChat ''And at night?'', ClickGenerate,
         Settle 0 NetworkFailure, Settle 0 NetworkFailure,
         Settle 0 (HttpResponse 200 (JsonReply ''AM: serum PM: rest''))]) ! 2
     = [Some system_message,
        Some \<lparr>role = ''user'', content = routinePrompt one_selected\<rparr>]"
  by code_simp

subsection \<open>Citation links\<close>

text \<open>
  Claim C8, as stated: every match of the URL pattern in a rendered assistant reply becomes
  an anchor element whose \<^verbatim>\<open>href\<close> is the matched URL. The script copies the match into
  the markup as it is, and the pattern admits a double quote: for the reply
  \<^verbatim>\<open>http://a.b/"c\<close> the whole reply is the match, and the \<^verbatim>\<open>href\<close> that is read back from
  the markup ends at the quote, \<^verbatim>\<open>http://a.b/\<close>.
\<close>

theorem quoted_url_href_counterexample:
  \<open>url_at ''http://a.b/"c'' = Some ''http://a.b/"c'' \<and>
   innerHTML (message_div ''AI Advisor'' ''http://a.b/"c'' False) =
     ''<strong>AI Advisor</strong>:  <a href="http://a.b/"c" target="_blank" class="citation">[Source]</a>'' \<and>
   href_read (citation ''http://a.b/"c'') = ''http://a.b/'' \<and>
   href_read (citation ''http://a.b/"c'') \<noteq> ''http://a.b/"c''\<close>
  by code_simp

text \<open>
  Claim C8, amended: in the markup that the script assigns to a rendered assistant reply,
  every match of the URL pattern, \<^verbatim>\<open>http://\<close> or \<^verbatim>\<open>https://\<close> followed by the longest
  non-empty run of characters that are neither white space nor \<^verbatim>\<open><\<close>, is replaced by the
  text of an anchor that holds the matched text, unescaped, between the quotes of
  \<^verbatim>\<open>href\<close> and has the link text \<^verbatim>\<open>[Source]\<close>. The first match of the reply is rewritten
  so and the text before it is kept; the same holds for the first match of the text
  behind it, and so on; a text with no match is kept as it is.
\<close>

theorem reply_urls_become_citations:
  assumes scheme: "scheme = ''http://'' \<or> scheme = ''https://''"
    and body: "body \<noteq> []" "\<forall>c\<in>set body. url_char c"
    and post: "post = [] \<or> \<not> url_char (hd post)"
    and pre: "\<forall>i<length (nl2br pre).
                url_at (drop i (nl2br pre @ scheme @ body @ nl2br post)) = None"
  shows \<open>innerHTML (message_div ''AI Advisor'' (pre @ scheme @ body @ post) False) =
           ''<strong>AI Advisor</strong>: '' @ nl2br pre
           @ '' <a href="'' @ scheme @ body @ ''" target="_blank" class="citation">[Source]</a>''
           @ linkify (nl2br post)
         \<and> (\<forall>p q. (q = [] \<or> \<not> url_char (hd q)) \<longrightarrow>
                (\<forall>i<length p. url_at (drop i (p @ scheme @ body @ q)) = None) \<longrightarrow>
                linkify (p @ scheme @ body @ q) =
                  p @ '' <a href="'' @ scheme @ body
                  @ ''" target="_blank" class="citation">[Source]</a>'' @ linkify q)
         \<and> (\<forall>t. (\<forall>i<length t. url_at (drop i t) = None) \<longrightarrow> linkify t = t)\<close>
proof -
  have rewritten: "linkify (p @ scheme @ body @ q) = p @ citation (scheme @ body) @ linkify q"
    if q: "q = [] \<or> \<not> url_char (hd q)"
      and p: "\<forall>i<length p. url_at (drop i (p @ scheme @ body @ q)) = None"
    for p q
  proof -
    have "url_at (scheme @ body @ q) = Some (scheme @ body)"
      using scheme body q by (rule url_at_match)
    then have "linkify ((scheme @ body) @ q) = citation (scheme @ body) @ linkify q"
      by (intro linkify_match) simp
    moreover have "linkify (p @ (scheme @ body) @ q) = p @ linkify ((scheme @ body) @ q)"
      using p by (intro linkify_no_match_before) simp
    ultimately show ?thesis by simp
  qed
  have kept: "linkify t = t" if "\<forall>i<length t. url_at (drop i t) = None" for t
    using linkify_no_match_before [of t "[]"] that by simp
  have "\<forall>c\<in>set (scheme @ body). url_char c"
    using scheme_url_chars [OF scheme] body(2) by auto
  then have "nl2br (scheme @ body) = scheme @ body"
    by (rule nl2br_url_chars)
  then have "nl2br (pre @ scheme @ body @ post) = nl2br pre @ scheme @ body @ nl2br post"
    by (simp add: nl2br_append)
  moreover have "linkify (nl2br pre @ scheme @ body @ nl2br post)
                   = nl2br pre @ citation (scheme @ body) @ linkify (nl2br post)"
    using nl2br_boundary [OF post] pre by (rule rewritten)
  ultimately have first: \<open>innerHTML (message_div ''AI Advisor'' (pre @ scheme @ body @ post) False) =
           ''<strong>AI Advisor</strong>: '' @ nl2br pre
           @ '' <a href="'' @ scheme @ body @ ''" target="_blank" class="citation">[Source]</a>''
           @ linkify (nl2br post)\<close>
    by (simp add: message_div_def citation_def)
  from first rewritten kept show ?thesis
    by (simp add: citation_def)
qed

theorem reply_urls_become_citations_witness:
  \<open>innerHTML (message_div ''AI Advisor'' ''See https://example.com/study now'' False) =
     ''<strong>AI Advisor</strong>: See  <a href="https://example.com/study" target="_blank" class="citation">[Source]</a> now''\<close>
proof -
  have a: "''https://'' = ''http://'' \<or> ''https://'' = ''https://''" by simp
  have b: "''example.com/study'' \<noteq> []" by simp
  have c: "\<forall>c\<in>set ''example.com/study''. url_char c"
    by (simp add: url_char_def is_space_def code_unit_def)
  have d: "'' now'' = [] \<or> \<not> url_char (hd '' now'')"
    by (simp add: url_char_def is_space_def code_unit_def)
  have n1: "nl2br ''See '' = ''See ''" and n2: "nl2br '' now'' = '' now''"
    by (simp_all add: nl2br_def)
  have e: "\<forall>i<length (nl2br ''See '').
             url_at (drop i (nl2br ''See '' @ ''https://'' @ ''example.com/study'' @ nl2br '' now''))
               = None"
    unfolding n1 n2 by (simp add: All_less_Suc url_at_def)
  have f: "\<forall>i<length '' now''. url_at (drop i '' now'') = None"
    by (simp add: All_less_Suc url_at_def)
  note inst = reply_urls_become_citations [OF a b c d e]
  from inst f have "linkify '' now'' = '' now''" by blast
  with inst show ?thesis
    by (simp add: n1 n2)
qed

subsection \<open>Implicit behaviour\<close>

text \<open>
  Claim C9: white space around the search text never changes the visible products, and a
  search text of white space alone filters as the empty text does, by category only.
\<close>

theorem search_ignores_outer_whitespace:
  assumes "\<forall>c\<in>set pre. is_space c" and "\<forall>c\<in>set post. is_space c"
  shows "filteredProducts cat (pre @ q @ post) ps = filteredProducts cat q ps \<and>
         filteredProducts cat pre ps = filteredProducts cat [] ps \<and>
         filteredProducts cat pre ps =
           (if cat = [] then ps else filter (\<lambda>p. category p = cat) ps)"
proof -
  have a: "trim (toLowerCase (pre @ q @ post)) = trim (toLowerCase q)"
    using assms by (rule searchTerm_padded)
  have "trim (toLowerCase (pre @ [] @ [])) = trim (toLowerCase [])"
    using assms(1) by (intro searchTerm_padded) simp_all
  then have b: "trim (toLowerCase pre) = []"
    by (simp add: toLowerCase_def trim_def)
  show ?thesis
    by (simp add: filteredProducts_def a b) (simp add: toLowerCase_def trim_def)
qed

theorem search_ignores_outer_whitespace_witness:
  "filteredProducts '''' ''  vitamin  '' [vitamin] = filteredProducts '''' ''vitamin'' [vitamin]
   \<and> filteredProducts ''serum'' [CHR 0x09, CHR '' ''] [vitamin] = [vitamin]"
proof -
  have sp: "\<forall>c\<in>set ''  ''. is_space c"
    by (simp add: is_space_def code_unit_def)
  have sp2: "\<forall>c\<in>set [CHR 0x09, CHR '' '']. is_space c"
    by (simp add: is_space_def code_unit_def)
  from search_ignores_outer_whitespace [OF sp sp, of "''''" "''vitamin''" "[vitamin]"]
  have 1: "filteredProducts '''' ''  vitamin  '' [vitamin]
             = filteredProducts '''' ''vitamin'' [vitamin]"
    by simp
  from search_ignores_outer_whitespace [OF sp2 sp2, of "''serum''" "[]" "[vitamin]",
         THEN conjunct2, THEN conjunct2]
  have 2: "filteredProducts ''serum'' [CHR 0x09, CHR '' ''] [vitamin] = [vitamin]"
    by (simp add: vitamin_def)
  from 1 2 show ?thesis by simp
qed

text \<open>
  Claim C10: the guard of routine generation looks at the size of the selection only. With
  a selection that is not empty and holds no id of the catalog, the request is sent, and
  the prompt in it ends with the empty array \<^verbatim>\<open>[]\<close> as its product payload.
\<close>

theorem stale_selection_is_sent:
  assumes "selectedProductIds s \<noteq> []"
    and "\<forall>i\<in>set (selectedProductIds s). \<forall>p\<in>set (productsData s). id_p p \<noteq> i"
  shows "posted (step s ClickGenerate) =
           posted s @ [[first_entry (chatHistory s),
                        Some \<lparr>role = ''user'', content = routine_instruction @ ''[]''\<rparr>]]
         \<and> inFlight (step s ClickGenerate) = inFlight s @ [RoutineExchange]
         \<and> selectedProductsData s = []"
proof -
  have "\<forall>i\<in>set (selectedProductIds s). find_product (productsData s) i = None"
    using assms(2) by (auto simp: find_product_def find_None_iff)
  then have "selectedProductsData s = []"
    by (simp add: selectedProductsData_def List.map_filter_def filter_empty_conv)
  then have "routinePrompt s = routine_instruction @ ''[]''"
    by (simp add: routinePrompt_def JSON_array_def)
  with assms(1) \<open>selectedProductsData s = []\<close> show ?thesis
    by (simp add: generateRoutine_begin_selected)
qed

theorem stale_selection_is_sent_witness:
  "posted (step stale_selected ClickGenerate) =
     [[Some system_message,
       Some \<lparr>role = ''user'', content = routine_instruction @ ''[]''\<rparr>]]
   \<and> inFlight (step stale_selected ClickGenerate) = [RoutineExchange]"
proof -
  have ids: "selectedProductIds stale_selected = [''discontinued-cream'']"
    by code_simp
  have a: "selectedProductIds stale_selected \<noteq> []"
    by (simp add: ids)
  have b: "\<forall>i\<in>set (selectedProductIds stale_selected).
             \<forall>p\<in>set (productsData stale_selected). id_p p \<noteq> i"
    by (simp add: ids) (simp add: stale_selected_def vitamin_def)
  from stale_selection_is_sent [OF a b] show ?thesis
    by (simp add: stale_selected_def initial_state_def first_entry_def)
qed

end
